theory Spec2Isabelle
  imports Main
begin

section \<open>Package util\<close>

text \<open>
  \<^verbatim>\<open>RemoveString\<close> walks the slice from the left and, at the first index \<open>i\<close> whose
  element equals \<open>r\<close>, returns \<open>append(s[:i], s[i+1:]...)\<close>; when the loop finds nothing
  it returns \<open>s\<close> itself.
\<close>

fun RemoveString :: "string list \<Rightarrow> string \<Rightarrow> string list" where
  "RemoveString [] r = []"
| "RemoveString (v # s) r = (if v = r then s else v # RemoveString s r)"

text \<open>\<^verbatim>\<open>strings.TrimPrefix\<close>: drop the prefix when the string starts with it.\<close>

definition TrimPrefix :: "string \<Rightarrow> string \<Rightarrow> string" where
  "TrimPrefix s p = (if take (length p) s = p then drop (length p) s else s)"

definition ShortURL :: "string \<Rightarrow> string" where
  "ShortURL s = TrimPrefix (TrimPrefix s ''http://'') ''https://''"

section \<open>Errors\<close>

text \<open>A Go \<^verbatim>\<open>error\<close> value is modelled by its message; \<open>None\<close> is \<^verbatim>\<open>nil\<close>.\<close>

datatype error = Error string

text \<open>A call either returns or panics.\<close>

datatype 'a outcome = Panic | Return 'a

section \<open>Package client\<close>

record Message =
  Event :: string
  Topic :: string
  Message :: string
  Title :: string
  Priority :: int
  Tags :: "string list"

text \<open>
  A \<^verbatim>\<open>subscription\<close> holds the cancel function of one context. Contexts are numbered
  in the order \<^verbatim>\<open>context.WithCancel\<close> creates them, and the cancel function is
  represented by the number of the context it cancels.
\<close>

record subscription =
  cancel :: nat

record Client =
  subscriptions :: "string \<rightharpoonup> subscription"

text \<open>
  What the client's functions act on outside the struct: the contexts created so far,
  the contexts whose cancel function has been called, and the goroutines started by
  \<^verbatim>\<open>go handleConnectionLoop(ctx, c.Messages, topicURL)\<close>, each with its context and topic.
  The last field records the calls made on the chat connection, oldest first.
\<close>

datatype chat_call = Send string string | React string string string

record Runtime =
  contexts :: nat
  cancelled :: "nat set"
  goroutines :: "(nat \<times> string) list"
  chat :: "chat_call list"

definition Client_New :: Client where
  "Client_New = \<lparr>subscriptions = Map.empty\<rparr>"

definition Client_Subscribe :: "string \<Rightarrow> Client \<Rightarrow> Runtime \<Rightarrow> Client \<times> Runtime" where
  "Client_Subscribe topicURL c rt =
     (case Client.subscriptions c topicURL of
        Some _ \<Rightarrow> (c, rt)
      | None \<Rightarrow>
          (let ctx = contexts rt in
           (c\<lparr>Client.subscriptions := (Client.subscriptions c)(topicURL \<mapsto> \<lparr>cancel = ctx\<rparr>)\<rparr>,
            rt\<lparr>contexts := Suc ctx, goroutines := goroutines rt @ [(ctx, topicURL)]\<rparr>)))"

definition Client_Unsubscribe :: "string \<Rightarrow> Client \<Rightarrow> Runtime \<Rightarrow> Client \<times> Runtime" where
  "Client_Unsubscribe topicURL c rt =
     (case Client.subscriptions c topicURL of
        None \<Rightarrow> (c, rt)
      | Some sub \<Rightarrow> (c, rt\<lparr>cancelled := insert (cancel sub) (cancelled rt)\<rparr>))"

text \<open>
  A connector of a topic is live when its goroutine was started for that topic and its
  context has not been cancelled.
\<close>

definition live_connectors :: "Runtime \<Rightarrow> string \<Rightarrow> (nat \<times> string) list" where
  "live_connectors rt topicURL =
     filter (\<lambda>g. snd g = topicURL \<and> fst g \<notin> cancelled rt) (goroutines rt)"

section \<open>Package config\<close>

definition DefaultBaseURL :: string where
  "DefaultBaseURL = ''https://ntfy.sh''"

record Config =
  Token :: string
  BaseURL :: string
  Debug :: bool

definition Config_New :: "string \<Rightarrow> Config" where
  "Config_New token = \<lparr>Token = token, BaseURL = DefaultBaseURL, Debug = False\<rparr>"

section \<open>Package bot\<close>

record messageEvent =
  ID :: string
  Channel :: string
  User :: string
  Message :: string

text \<open>
  The chat connection is an interface implemented outside the core. Its answers are
  parameters: the mention token of the bot and the error (or \<open>None\<close>) that each
  \<^verbatim>\<open>Send\<close> and \<^verbatim>\<open>React\<close> call returns.
\<close>

record conn =
  MentionBot :: string
  Send_result :: "string \<Rightarrow> string \<Rightarrow> error option"
  React_result :: "string \<Rightarrow> string \<Rightarrow> string \<Rightarrow> error option"

definition conn_Send :: "conn \<Rightarrow> string \<Rightarrow> string \<Rightarrow> Runtime \<Rightarrow> error option \<times> Runtime" where
  "conn_Send cn channel message rt =
     (Send_result cn channel message, rt\<lparr>chat := chat rt @ [Send channel message]\<rparr>)"

definition conn_React :: "conn \<Rightarrow> string \<Rightarrow> string \<Rightarrow> string \<Rightarrow> Runtime \<Rightarrow> error option \<times> Runtime" where
  "conn_React cn channelID messageID emoji rt =
     (React_result cn channelID messageID emoji,
      rt\<lparr>chat := chat rt @ [React channelID messageID emoji]\<rparr>)"

record Bot =
  config :: Config
  client :: Client
  subscriptions :: "string \<rightharpoonup> string list"

definition Bot_New :: "Config \<Rightarrow> Bot" where
  "Bot_New conf = \<lparr>config = conf, client = Client_New, subscriptions = Map.empty\<rparr>"

definition Runtime_New :: Runtime where
  "Runtime_New = \<lparr>contexts = 0, cancelled = {}, goroutines = [], chat = []\<rparr>"

text \<open>
  The parsed command line handed to an action: \<^verbatim>\<open>c.String(name)\<close> reads a flag (the
  flag's default when it was not given, the empty string for an unknown name) and
  \<^verbatim>\<open>c.Args()\<close> are the positional arguments.
\<close>

record Context =
  flags :: "string \<Rightarrow> string"
  args :: "string list"

definition String :: "Context \<Rightarrow> string \<Rightarrow> string" where
  "String c name = flags c name"

definition NArg :: "Context \<Rightarrow> nat" where
  "NArg c = length (args c)"

definition First :: "string list \<Rightarrow> string" where
  "First as = (case as of [] \<Rightarrow> [] | a # _ \<Rightarrow> a)"

text \<open>Reading a key that a Go map does not hold gives the zero value, the nil slice.\<close>

definition channels :: "Bot \<Rightarrow> string \<Rightarrow> string list" where
  "channels b topicURL = (case Bot.subscriptions b topicURL of None \<Rightarrow> [] | Some cs \<Rightarrow> cs)"

text \<open>\<^verbatim>\<open>url.QueryEscape\<close> of the thumbs-up emoji (U+1F44D, four bytes in UTF-8).\<close>

definition thumbs_up :: string where
  "thumbs_up = ''%F0%9F%91%8D''"

text \<open>
  The key of a topic, \<^verbatim>\<open>fmt.Sprintf("%s/%s", baseURL, topic)\<close> with the \<^verbatim>\<open>server\<close> flag
  as base URL and the first positional argument as topic.
\<close>

definition topicURL_of :: "Context \<Rightarrow> string" where
  "topicURL_of c = String c ''server'' @ ''/'' @ First (args c)"

definition execSubscribe ::
  "conn \<Rightarrow> Context \<Rightarrow> messageEvent \<Rightarrow> Bot \<Rightarrow> Runtime \<Rightarrow> error option \<times> Bot \<times> Runtime" where
  "execSubscribe cn c ev b rt =
     (if NArg c < 1 then
        (Some (Error ''missing server address, see --help for usage details''), b, rt)
      else
        (let topicURL = topicURL_of c;
             (b1, rt1) =
               (case Bot.subscriptions b topicURL of
                  None \<Rightarrow>
                    (let (cl, rt') = Client_Subscribe topicURL (client b) rt in
                     (b\<lparr>client := cl, subscriptions := (Bot.subscriptions b)(topicURL \<mapsto> [])\<rparr>, rt'))
                | Some _ \<Rightarrow> (b, rt));
             b2 = b1\<lparr>subscriptions :=
                      (Bot.subscriptions b1)(topicURL \<mapsto> channels b1 topicURL @ [Channel ev])\<rparr>;
             (err, rt2) = conn_React cn (Channel ev) (ID ev) thumbs_up rt1
         in (err, b2, rt2)))"

definition execUnsubscribe ::
  "conn \<Rightarrow> Context \<Rightarrow> messageEvent \<Rightarrow> Bot \<Rightarrow> Runtime \<Rightarrow> error option \<times> Bot \<times> Runtime" where
  "execUnsubscribe cn c ev b rt =
     (if NArg c < 1 then
        (Some (Error ''missing server address, see --help for usage details''), b, rt)
      else
        (let topicURL = topicURL_of c;
             (b1, rt1) =
               (case Bot.subscriptions b topicURL of
                  None \<Rightarrow> (b, rt)
                | Some cs \<Rightarrow>
                    (let b' = b\<lparr>subscriptions :=
                                  (Bot.subscriptions b)(topicURL \<mapsto> RemoveString cs (Channel ev))\<rparr>
                     in if length (channels b' topicURL) = 0 then
                          (let (cl, rt') = Client_Unsubscribe topicURL (client b') rt in
                           (b'\<lparr>client := cl,
                               subscriptions := (Bot.subscriptions b')(topicURL := None)\<rparr>, rt'))
                        else (b', rt)));
             (err, rt2) = conn_React cn (Channel ev) (ID ev) thumbs_up rt1
         in (err, b1, rt2)))"

text \<open>
  The locked sections of \<^verbatim>\<open>execSubscribe\<close> and \<^verbatim>\<open>execUnsubscribe\<close> never leave a
  topic mapped to an empty slice: the first appends right after creating the entry, the
  second deletes the entry as soon as the slice is empty.
\<close>

definition no_empty_entry :: "Bot \<Rightarrow> bool" where
  "no_empty_entry b = (\<forall>t cs. Bot.subscriptions b t = Some cs \<longrightarrow> cs \<noteq> [])"

subsection \<open>Routing a notification to the chat\<close>

text \<open>
  The message is a pointer; \<open>None\<close> is the nil pointer, and reading its event panics.
  The errors of the \<^verbatim>\<open>Send\<close> calls are dropped.
\<close>

definition handleSubscriptionMessage ::
  "conn \<Rightarrow> Message option \<Rightarrow> Bot \<Rightarrow> Runtime \<Rightarrow> (error option \<times> Runtime) outcome" where
  "handleSubscriptionMessage cn mp b rt =
     (case mp of
        None \<Rightarrow> Panic
      | Some m \<Rightarrow>
          if Event m \<noteq> ''message'' then Return (None, rt)
          else
            (let topicURL = ''https://ntfy.sh/'' @ Topic m;
                 message = ''**'' @ ShortURL topicURL @ ''** '' @ Message.Message m
             in case Bot.subscriptions b topicURL of
                  None \<Rightarrow> Return (None, rt)
                | Some cs \<Rightarrow>
                    Return (None, foldl (\<lambda>r channel. snd (conn_Send cn channel message r)) rt cs)))"

subsection \<open>Reading a chat message as a command line\<close>

text \<open>
  \<^verbatim>\<open>strings.Fields\<close> splits around runs of white space, the runes of
  \<^verbatim>\<open>unicode.IsSpace\<close>. The strings of the model are byte strings, as Go's are, and
  \<open>space_runes\<close> lists the UTF-8 encodings of the white-space runes: the six of the
  \<^verbatim>\<open>asciiSpace\<close> table (tab, line feed, vertical tab, form feed, carriage return, space),
  U+0085 and U+00A0, U+1680, U+2000 to U+200A, U+2028, U+2029, U+202F, U+205F and U+3000.
  The first byte of each encoding is never a continuation byte of UTF-8, so the decoder
  of \<^verbatim>\<open>range\<close> always starts a rune where such an encoding starts, and a string starts
  with a white-space rune exactly when it starts with one of these byte sequences.
\<close>

definition space_runes :: "string list" where
  "space_runes =
     [[CHR 0x09], [CHR 0x0A], [CHR 0x0B], [CHR 0x0C], [CHR 0x0D], [CHR 0x20],
      [CHR 0xC2, CHR 0x85], [CHR 0xC2, CHR 0xA0],
      [CHR 0xE1, CHR 0x9A, CHR 0x80],
      [CHR 0xE2, CHR 0x80, CHR 0x80], [CHR 0xE2, CHR 0x80, CHR 0x81],
      [CHR 0xE2, CHR 0x80, CHR 0x82], [CHR 0xE2, CHR 0x80, CHR 0x83],
      [CHR 0xE2, CHR 0x80, CHR 0x84], [CHR 0xE2, CHR 0x80, CHR 0x85],
      [CHR 0xE2, CHR 0x80, CHR 0x86], [CHR 0xE2, CHR 0x80, CHR 0x87],
      [CHR 0xE2, CHR 0x80, CHR 0x88], [CHR 0xE2, CHR 0x80, CHR 0x89],
      [CHR 0xE2, CHR 0x80, CHR 0x8A],
      [CHR 0xE2, CHR 0x80, CHR 0xA8], [CHR 0xE2, CHR 0x80, CHR 0xA9],
      [CHR 0xE2, CHR 0x80, CHR 0xAF], [CHR 0xE2, CHR 0x81, CHR 0x9F],
      [CHR 0xE3, CHR 0x80, CHR 0x80]]"

text \<open>The length in bytes of the white-space rune a string starts with, 0 when there is none.\<close>

definition space_width :: "string \<Rightarrow> nat" where
  "space_width s =
     (case find (\<lambda>p. take (length p) s = p) space_runes of
        None \<Rightarrow> 0
      | Some p \<Rightarrow> length p)"

text \<open>
  The scan of \<^verbatim>\<open>Fields\<close>: \<open>skip\<close> counts the bytes of a white-space rune still to
  pass over, \<open>cur\<close> is the field being read.
\<close>

fun fields_from :: "nat \<Rightarrow> string \<Rightarrow> string \<Rightarrow> string list" where
  "fields_from skip cur [] = (if cur = [] then [] else [cur])"
| "fields_from skip cur (ch # s) =
     (if 0 < skip then fields_from (skip - 1) cur s
      else
        (case space_width (ch # s) of
           0 \<Rightarrow> fields_from 0 (cur @ [ch]) s
         | Suc w \<Rightarrow> (if cur = [] then fields_from w [] s else cur # fields_from w [] s)))"

definition Fields :: "string \<Rightarrow> string list" where
  "Fields s = fields_from 0 [] s"

text \<open>
  \<^verbatim>\<open>runCLI\<close> builds the command-line application and hands the arguments to the
  library's \<^verbatim>\<open>app.Run\<close>; it is a parameter of the dispatcher.
\<close>

type_synonym runCLI =
  "messageEvent \<Rightarrow> string list \<Rightarrow> Bot \<Rightarrow> Runtime \<Rightarrow> error option \<times> Bot \<times> Runtime"

definition err_Error :: "error \<Rightarrow> string" where
  "err_Error e = (case e of Error msg \<Rightarrow> msg)"

definition handleChatMessageEvent ::
  "conn \<Rightarrow> runCLI \<Rightarrow> messageEvent \<Rightarrow> Bot \<Rightarrow> Runtime \<Rightarrow> error option \<times> Bot \<times> Runtime" where
  "handleChatMessageEvent cn run ev b rt =
     (case Fields (messageEvent.Message ev) of
        [] \<Rightarrow> (None, b, rt)
      | f # _ \<Rightarrow>
          if f \<noteq> MentionBot cn then (None, b, rt)
          else
            (let args = Fields (messageEvent.Message ev) in
             case run ev args b rt of
               (None, b', rt') \<Rightarrow> (None, b', rt')
             | (Some err, b', rt') \<Rightarrow>
                 (let (e, rt'') = conn_Send cn (Channel ev) (err_Error err) rt'
                  in (e, b', rt''))))"

subsection \<open>Publishing\<close>

record Request =
  Method :: string
  URL :: string
  Body :: string
  Header :: "string \<rightharpoonup> string"

record Response =
  StatusCode :: int

text \<open>
  The HTTP library is a parameter: the error with which \<^verbatim>\<open>http.NewRequest\<close> refuses a
  URL (\<open>None\<close> when it accepts it), and what \<^verbatim>\<open>http.DefaultClient.Do\<close> answers to
  a request.
\<close>

record http =
  url_error :: "string \<Rightarrow> error option"
  Do :: "Request \<Rightarrow> error + Response"

definition NewRequest :: "http \<Rightarrow> string \<Rightarrow> string \<Rightarrow> string \<Rightarrow> error + Request" where
  "NewRequest h m u b =
     (case url_error h u of
        Some err \<Rightarrow> Inl err
      | None \<Rightarrow> Inr \<lparr>Method = m, URL = u, Body = b, Header = Map.empty\<rparr>)"

type_synonym MessageOption = "Request \<Rightarrow> error + Request"

definition Header_Set :: "Request \<Rightarrow> string \<Rightarrow> string \<Rightarrow> Request" where
  "Header_Set r k v = r\<lparr>Header := (Header r)(k \<mapsto> v)\<rparr>"

definition WithTitle :: "string \<Rightarrow> MessageOption" where
  "WithTitle title r = Inr (if title \<noteq> [] then Header_Set r ''X-Title'' title else r)"

definition WithPriority :: "string \<Rightarrow> MessageOption" where
  "WithPriority priority r =
     Inr (if priority \<noteq> [] then Header_Set r ''X-Priority'' priority else r)"

definition WithTags :: "string \<Rightarrow> MessageOption" where
  "WithTags tags r = Inr (if tags \<noteq> [] then Header_Set r ''X-Tags'' tags else r)"

fun apply_options :: "MessageOption list \<Rightarrow> Request \<Rightarrow> error + Request" where
  "apply_options [] r = Inr r"
| "apply_options (option # options) r =
     (case option r of Inl err \<Rightarrow> Inl err | Inr r' \<Rightarrow> apply_options options r')"

text \<open>The verb \<^verbatim>\<open>%d\<close> of \<^verbatim>\<open>fmt\<close>: an integer in decimal.\<close>

function decimal :: "nat \<Rightarrow> string" where
  "decimal n =
     (if n < 10 then [''0123456789'' ! n]
      else decimal (n div 10) @ [''0123456789'' ! (n mod 10)])"
  by pat_completeness auto
termination
  by (relation "measure id") auto

declare decimal.simps [simp del]

definition Sprintf_d :: "int \<Rightarrow> string" where
  "Sprintf_d i = (if i < 0 then ''-'' @ decimal (nat (- i)) else decimal (nat i))"

text \<open>
  \<^verbatim>\<open>Publish\<close> drops the error of \<^verbatim>\<open>http.NewRequest\<close>; when the URL was refused the
  request is nil, and the call ends in a nil dereference.
\<close>

definition Publish ::
  "http \<Rightarrow> string \<Rightarrow> string \<Rightarrow> MessageOption list \<Rightarrow> error option outcome" where
  "Publish h topicURL message options =
     (case NewRequest h ''POST'' topicURL message of
        Inl _ \<Rightarrow> Panic
      | Inr req \<Rightarrow>
          (case apply_options options req of
             Inl err \<Rightarrow> Return (Some err)
           | Inr req' \<Rightarrow>
               (case Do h req' of
                  Inl err \<Rightarrow> Return (Some err)
                | Inr resp \<Rightarrow>
                    if StatusCode resp > 299 then
                      Return (Some (Error (''unexpected response '' @ Sprintf_d (StatusCode resp)
                                            @ '' from server'')))
                    else Return None)))"

text \<open>\<^verbatim>\<open>strings.Join\<close>.\<close>

fun Join :: "string list \<Rightarrow> string \<Rightarrow> string" where
  "Join [] sep = []"
| "Join [a] sep = a"
| "Join (a # b # elems) sep = a @ sep @ Join (b # elems) sep"

definition execPublish ::
  "conn \<Rightarrow> http \<Rightarrow> Context \<Rightarrow> messageEvent \<Rightarrow> Runtime \<Rightarrow> (error option \<times> Runtime) outcome" where
  "execPublish cn h c ev rt =
     (let baseURL = String c ''server'';
          title = String c ''title'';
          priority = String c ''priority'';
          tags = String c ''tags''
      in if NArg c < 2 then Return (Some (Error ''topic and/or message missing''), rt)
         else
           (let topic = First (args c);
                topicURL = baseURL @ ''/'' @ topic;
                message = Join (tl (args c)) '' ''
            in case Publish h topicURL message
                      [WithTitle title, WithPriority priority, WithTags tags] of
                 Panic \<Rightarrow> Panic
               | Return (Some err) \<Rightarrow> Return (Some err, rt)
               | Return None \<Rightarrow> Return (conn_React cn (Channel ev) (ID ev) thumbs_up rt)))"

section \<open>The connector of a topic\<close>

text \<open>
  What one connection attempt meets: \<^verbatim>\<open>http.NewRequestWithContext\<close> fails, \<^verbatim>\<open>Do\<close>
  fails, or there is a response body, given by the lines the scanner yields before
  \<^verbatim>\<open>Scan\<close> returns false. The JSON decoder is a parameter; it decodes into a pointer,
  and the JSON value \<^verbatim>\<open>null\<close> gives the nil pointer \<open>None\<close> without an error. The
  channel \<^verbatim>\<open>msgChan\<close> is the list of the messages handed over, oldest first.
\<close>

datatype stream = RequestError error | DoError error | ResponseBody "string list"

type_synonym decoder = "string \<Rightarrow> error + Message option"

fun scan ::
  "decoder \<Rightarrow> string list \<Rightarrow> Message option list \<Rightarrow> error option \<times> Message option list" where
  "scan dec [] msgChan = (None, msgChan)"
| "scan dec (line # lines) msgChan =
     (case dec line of
        Inl err \<Rightarrow> (Some err, msgChan)
      | Inr m \<Rightarrow> scan dec lines (msgChan @ [m]))"

definition handleConnection ::
  "decoder \<Rightarrow> stream \<Rightarrow> Message option list \<Rightarrow> error option \<times> Message option list" where
  "handleConnection dec st msgChan =
     (case st of
        RequestError err \<Rightarrow> (Some err, msgChan)
      | DoError err \<Rightarrow> (Some err, msgChan)
      | ResponseBody lines \<Rightarrow> scan dec lines msgChan)"

text \<open>
  One turn of the loop of \<^verbatim>\<open>handleConnectionLoop\<close> is given by what its connection
  attempt meets and by the branch its \<^verbatim>\<open>select\<close> takes: \<open>ctx_Done\<close> holds when the
  context's \<^verbatim>\<open>Done\<close> channel is ready before the timer of
  \<^verbatim>\<open>time.After(5 * time.Second)\<close> fires, which is when cancellation was requested by then.
  The loop is run on the turns given; when they are used up it is still running (\<open>False\<close>).
  Its trace records each call of \<^verbatim>\<open>handleConnection\<close>, each log line, each wait with
  its length in seconds, and the return.
\<close>

record turn =
  meets :: stream
  ctx_Done :: bool

datatype loop_event = Attempt string | Log string | Wait nat | Exited

fun handleConnectionLoop ::
  "decoder \<Rightarrow> string \<Rightarrow> turn list \<Rightarrow> loop_event list \<Rightarrow> Message option list
     \<Rightarrow> bool \<times> loop_event list \<times> Message option list" where
  "handleConnectionLoop dec topicURL [] trace msgChan = (False, trace, msgChan)"
| "handleConnectionLoop dec topicURL (t # turns) trace msgChan =
     (let (err, msgChan') = handleConnection dec (meets t) msgChan;
          trace1 = trace @ [Attempt (topicURL @ ''/json'')]
                     @ (case err of
                          None \<Rightarrow> []
                        | Some e \<Rightarrow> [Log (''connection to '' @ topicURL @ '' failed: '' @ err_Error e)])
      in if ctx_Done t then
           (True, trace1 @ [Log (''connection to '' @ topicURL @ '' exited''), Exited], msgChan')
         else handleConnectionLoop dec topicURL turns (trace1 @ [Wait 5]) msgChan')"

section \<open>Chat commands in sequence\<close>

text \<open>
  The chat event loop handles one event after the other. A run of commands is given by
  the action chosen for each message with its parsed command line.
\<close>

datatype chat_command = CmdSubscribe | CmdUnsubscribe

definition exec_command ::
  "conn \<Rightarrow> chat_command \<times> Context \<times> messageEvent \<Rightarrow> Bot \<times> Runtime \<Rightarrow> Bot \<times> Runtime" where
  "exec_command cn x s =
     (case x of
        (CmdSubscribe, c, ev) \<Rightarrow> snd (execSubscribe cn c ev (fst s) (snd s))
      | (CmdUnsubscribe, c, ev) \<Rightarrow> snd (execUnsubscribe cn c ev (fst s) (snd s)))"

definition exec_all ::
  "conn \<Rightarrow> (chat_command \<times> Context \<times> messageEvent) list \<Rightarrow> Bot \<times> Runtime \<Rightarrow> Bot \<times> Runtime" where
  "exec_all cn xs s = foldl (\<lambda>s x. exec_command cn x s) s xs"

section \<open>Concrete inputs\<close>

definition ok_conn :: conn where
  "ok_conn = \<lparr>MentionBot = ''<@!1>'', Send_result = (\<lambda>_ _. None), React_result = (\<lambda>_ _ _. None)\<rparr>"

definition failing_conn :: conn where
  "failing_conn = \<lparr>MentionBot = ''<@!1>'', Send_result = (\<lambda>_ _. None),
     React_result = (\<lambda>_ _ _. Some (Error ''HTTP 403 Forbidden''))\<rparr>"

text \<open>The flags of a command line that gives none: \<^verbatim>\<open>server\<close> has the configured base URL.\<close>

definition default_flags :: "Config \<Rightarrow> string \<Rightarrow> string" where
  "default_flags conf name = (if name = ''server'' then BaseURL conf else [])"

definition ctx_mytopic :: Context where
  "ctx_mytopic = \<lparr>flags = default_flags (Config_New ''token''), args = [''mytopic'']\<rparr>"

definition ctx_example :: Context where
  "ctx_example = \<lparr>flags = (default_flags (Config_New ''token''))(''server'' := ''https://example.com''),
     args = [''mytopic'']\<rparr>"

definition ev_A :: messageEvent where
  "ev_A = \<lparr>ID = ''m1'', Channel = ''A'', User = ''u1'', Message = ''<@!1> subscribe mytopic''\<rparr>"

definition ev_B :: messageEvent where
  "ev_B = \<lparr>ID = ''m2'', Channel = ''B'', User = ''u2'', Message = ''<@!1> subscribe mytopic''\<rparr>"

definition start :: "Bot \<times> Runtime" where
  "start = (Bot_New (Config_New ''token''), Runtime_New)"

text \<open>A bot in which \<open>mytopic\<close> holds channel \<open>A\<close> twice.\<close>

definition bot_AB :: Bot where
  "bot_AB = (Bot_New (Config_New ''token''))
     \<lparr>subscriptions := [''https://ntfy.sh/mytopic'' \<mapsto> [''A'', ''B'', ''A'']]\<rparr>"

definition msg_hello :: Message where
  "msg_hello = \<lparr>Event = ''message'', Topic = ''mytopic'', Message = ''hello'', Title = [],
     Priority = 0, Tags = []\<rparr>"

definition ev_quoted :: messageEvent where
  "ev_quoted = \<lparr>ID = ''m3'', Channel = ''A'', User = ''u1'',
     Message = ''<@!1> publish mytopic '' @ [CHR 0x22] @ ''hello world'' @ [CHR 0x22]\<rparr>"

text \<open>A keep-alive record of the stream, its line, and a decoder that reads that line.\<close>

definition msg_keepalive :: Message where
  "msg_keepalive = \<lparr>Event = ''keepalive'', Topic = ''mytopic'', Message = [], Title = [],
     Priority = 0, Tags = []\<rparr>"

definition line_keepalive :: string where
  "line_keepalive = ''{'' @ [CHR 0x22] @ ''event'' @ [CHR 0x22] @ '':'' @ [CHR 0x22] @ ''keepalive''
     @ [CHR 0x22] @ '','' @ [CHR 0x22] @ ''topic'' @ [CHR 0x22] @ '':'' @ [CHR 0x22] @ ''mytopic''
     @ [CHR 0x22] @ ''}''"

definition dec_keepalive :: decoder where
  "dec_keepalive line =
     (if line = line_keepalive then Inr (Some msg_keepalive)
      else Inl (Error ''invalid character''))"

definition req_mytopic :: Request where
  "req_mytopic = \<lparr>Method = ''POST'', URL = ''https://ntfy.sh/mytopic'', Body = ''hello world'',
     Header = Map.empty\<rparr>"

text \<open>A server that answers every request with the given status code.\<close>

definition http_status :: "int \<Rightarrow> http" where
  "http_status code =
     \<lparr>url_error = (\<lambda>_. None), Do = (\<lambda>_. Inr \<lparr>StatusCode = code\<rparr>)\<rparr>"

text \<open>The trace of the loop without its log lines.\<close>

definition not_Log :: "loop_event \<Rightarrow> bool" where
  "not_Log e = (case e of Log _ \<Rightarrow> False | _ \<Rightarrow> True)"

definition steps :: "loop_event list \<Rightarrow> loop_event list" where
  "steps trace = filter not_Log trace"

text \<open>
  Four turns: a refused connection, a stream with a malformed second line, a stream that
  ends, and a last attempt during which the context is cancelled; with the error and the
  pushed records of each.
\<close>

definition turns_example :: "turn list" where
  "turns_example =
     [\<lparr>meets = DoError (Error ''connection refused''), ctx_Done = False\<rparr>,
      \<lparr>meets = ResponseBody [line_keepalive, ''{'', line_keepalive], ctx_Done = False\<rparr>,
      \<lparr>meets = ResponseBody [line_keepalive], ctx_Done = False\<rparr>,
      \<lparr>meets = DoError (Error ''context canceled''), ctx_Done = True\<rparr>]"

text \<open>
  The ways a connection attempt ends, in the words of the specification: a connection
  error (the request cannot be built, or the connection fails), with nothing pushed; the
  termination of the stream after all its lines were decoded and pushed, with no error;
  a decode error on one malformed line, after the lines before it were decoded and
  pushed, whatever follows the malformed line.
\<close>

inductive attempt_outcome ::
  "decoder \<Rightarrow> stream \<Rightarrow> error option \<Rightarrow> Message option list \<Rightarrow> bool" for dec where
  request_error: "attempt_outcome dec (RequestError err) (Some err) []"
| connection_error: "attempt_outcome dec (DoError err) (Some err) []"
| stream_termination:
    "map dec lines = map Inr ms \<Longrightarrow> attempt_outcome dec (ResponseBody lines) None ms"
| decode_error:
    "map dec lines = map Inr ms \<Longrightarrow> dec bad = Inl err \<Longrightarrow>
     attempt_outcome dec (ResponseBody (lines @ bad # later)) (Some err) ms"

text \<open>
  The trace of one turn: the attempt, the failure log when it ended in an error, then the
  5-second wait, or the exit log and the return when the context is done.
\<close>

definition turn_trace :: "string \<Rightarrow> turn \<Rightarrow> error option \<Rightarrow> loop_event list" where
  "turn_trace topicURL t err =
     [Attempt (topicURL @ ''/json'')]
     @ (case err of
          None \<Rightarrow> []
        | Some e \<Rightarrow> [Log (''connection to '' @ topicURL @ '' failed: '' @ err_Error e)])
     @ (if ctx_Done t then [Log (''connection to '' @ topicURL @ '' exited''), Exited]
        else [Wait 5])"

text \<open>The turns up to the first one at which the context is done, that one included.\<close>

definition turns_run :: "turn list \<Rightarrow> turn list" where
  "turns_run turns =
     takeWhile (\<lambda>t. \<not> ctx_Done t) turns @ take 1 (dropWhile (\<lambda>t. \<not> ctx_Done t) turns)"

definition example_err :: "turn \<Rightarrow> error option" where
  "example_err t =
     (case meets t of
        RequestError err \<Rightarrow> Some err
      | DoError err \<Rightarrow> Some err
      | ResponseBody lines \<Rightarrow>
          if lines = [line_keepalive] then None else Some (Error ''invalid character''))"

definition example_pushed :: "turn \<Rightarrow> Message option list" where
  "example_pushed t =
     (case meets t of
        RequestError err \<Rightarrow> []
      | DoError err \<Rightarrow> []
      | ResponseBody lines \<Rightarrow> [Some msg_keepalive])"

definition ev_publish :: messageEvent where
  "ev_publish = \<lparr>ID = ''m4'', Channel = ''A'', User = ''u1'',
     Message = ''<@!1> publish mytopic hello world --title=Hi''\<rparr>"

text \<open>
  Two readings of \<^verbatim>\<open>publish mytopic hello world --title=Hi\<close> by a flag parser: the
  option read as the flag \<^verbatim>\<open>title\<close>, and the option left among the positional arguments.
\<close>

definition ctx_publish :: "Config \<Rightarrow> Context" where
  "ctx_publish conf = \<lparr>flags = (default_flags conf)(''title'' := ''Hi''),
     args = [''mytopic'', ''hello'', ''world'']\<rparr>"

definition ctx_publish_positional :: "Config \<Rightarrow> Context" where
  "ctx_publish_positional conf = \<lparr>flags = default_flags conf,
     args = [''mytopic'', ''hello'', ''world'', ''--title=Hi'']\<rparr>"

text \<open>
  Every context that is cancelled, and every context a client subscription holds, was
  created before: the next context is never cancelled already.
\<close>

definition runtime_ok :: "Client \<Rightarrow> Runtime \<Rightarrow> bool" where
  "runtime_ok cl rt =
     ((\<forall>ctx \<in> cancelled rt. ctx < contexts rt)
      \<and> (\<forall>t sub. Client.subscriptions cl t = Some sub \<longrightarrow> cancel sub < contexts rt))"

section \<open>Removing a string from a slice\<close>

lemma RemoveString_absent: "r \<notin> set s \<Longrightarrow> RemoveString s r = s"
  by (induction s) auto

lemma RemoveString_split:
  "r \<notin> set xs \<Longrightarrow> RemoveString (xs @ r # ys) r = xs @ ys"
  by (induction xs) auto

lemma RemoveString_count:
  "count_list (RemoveString s r) x =
     (if x = r \<and> r \<in> set s then count_list s x - 1 else count_list s x)"
  by (induction s) auto

lemma RemoveString_index:
  "r \<in> set s \<Longrightarrow>
   RemoveString s r =
     take (length (takeWhile (\<lambda>v. v \<noteq> r) s)) s
       @ drop (Suc (length (takeWhile (\<lambda>v. v \<noteq> r) s))) s"
  by (induction s) auto

section \<open>The cases of subscribe and unsubscribe\<close>

lemma execUnsubscribe_no_topic:
  "1 \<le> NArg c \<Longrightarrow> Bot.subscriptions b (topicURL_of c) = None \<Longrightarrow>
   execUnsubscribe cn c ev b rt =
     (React_result cn (Channel ev) (ID ev) thumbs_up, b,
      rt\<lparr>chat := chat rt @ [React (Channel ev) (ID ev) thumbs_up]\<rparr>)"
  by (simp add: execUnsubscribe_def conn_React_def)

lemma execUnsubscribe_keep:
  "1 \<le> NArg c \<Longrightarrow> Bot.subscriptions b (topicURL_of c) = Some cs \<Longrightarrow>
   RemoveString cs (Channel ev) \<noteq> [] \<Longrightarrow>
   execUnsubscribe cn c ev b rt =
     (React_result cn (Channel ev) (ID ev) thumbs_up,
      b\<lparr>subscriptions := (Bot.subscriptions b)(topicURL_of c \<mapsto> RemoveString cs (Channel ev))\<rparr>,
      rt\<lparr>chat := chat rt @ [React (Channel ev) (ID ev) thumbs_up]\<rparr>)"
  by (simp add: execUnsubscribe_def conn_React_def channels_def)

lemma execUnsubscribe_last:
  "1 \<le> NArg c \<Longrightarrow> Bot.subscriptions b (topicURL_of c) = Some cs \<Longrightarrow>
   RemoveString cs (Channel ev) = [] \<Longrightarrow>
   execUnsubscribe cn c ev b rt =
     (React_result cn (Channel ev) (ID ev) thumbs_up,
      b\<lparr>client := fst (Client_Unsubscribe (topicURL_of c) (client b) rt),
        subscriptions := (Bot.subscriptions b)(topicURL_of c := None)\<rparr>,
      (snd (Client_Unsubscribe (topicURL_of c) (client b) rt))
        \<lparr>chat := chat (snd (Client_Unsubscribe (topicURL_of c) (client b) rt)) @ [React (Channel ev) (ID ev) thumbs_up]\<rparr>)"
  by (simp add: execUnsubscribe_def conn_React_def channels_def Let_def split_beta)

lemma execSubscribe_first:
  "1 \<le> NArg c \<Longrightarrow> Bot.subscriptions b (topicURL_of c) = None \<Longrightarrow>
   execSubscribe cn c ev b rt =
     (React_result cn (Channel ev) (ID ev) thumbs_up,
      b\<lparr>client := fst (Client_Subscribe (topicURL_of c) (client b) rt),
        subscriptions := (Bot.subscriptions b)(topicURL_of c \<mapsto> [Channel ev])\<rparr>,
      (snd (Client_Subscribe (topicURL_of c) (client b) rt))
        \<lparr>chat := chat (snd (Client_Subscribe (topicURL_of c) (client b) rt)) @ [React (Channel ev) (ID ev) thumbs_up]\<rparr>)"
  by (simp add: execSubscribe_def conn_React_def channels_def Let_def split_beta)

lemma execSubscribe_again:
  "1 \<le> NArg c \<Longrightarrow> Bot.subscriptions b (topicURL_of c) = Some cs \<Longrightarrow>
   execSubscribe cn c ev b rt =
     (React_result cn (Channel ev) (ID ev) thumbs_up,
      b\<lparr>subscriptions := (Bot.subscriptions b)(topicURL_of c \<mapsto> cs @ [Channel ev])\<rparr>,
      rt\<lparr>chat := chat rt @ [React (Channel ev) (ID ev) thumbs_up]\<rparr>)"
  by (simp add: execSubscribe_def conn_React_def channels_def)

lemma Client_Subscribe_known:
  "Client.subscriptions cl t = Some sub \<Longrightarrow> Client_Subscribe t cl rt = (cl, rt)"
  by (simp add: Client_Subscribe_def)

lemma Client_Subscribe_fresh:
  "Client.subscriptions cl t = None \<Longrightarrow>
   Client_Subscribe t cl rt =
     (cl\<lparr>Client.subscriptions := (Client.subscriptions cl)(t \<mapsto> \<lparr>cancel = contexts rt\<rparr>)\<rparr>,
      rt\<lparr>contexts := Suc (contexts rt), goroutines := goroutines rt @ [(contexts rt, t)]\<rparr>)"
  by (simp add: Client_Subscribe_def Let_def)

lemma live_connectors_chat [simp]:
  "live_connectors (rt\<lparr>chat := x\<rparr>) t = live_connectors rt t"
  by (simp add: live_connectors_def)

lemma channels_upd [simp]:
  "channels (b\<lparr>subscriptions := (Bot.subscriptions b)(t \<mapsto> cs)\<rparr>) t = cs"
  by (simp add: channels_def)

lemma channels_client [simp]: "channels (b\<lparr>client := cl\<rparr>) t = channels b t"
  by (simp add: channels_def)

section \<open>No topic is mapped to an empty slice\<close>

lemma no_empty_entry_New: "no_empty_entry (Bot_New conf)"
  by (simp add: no_empty_entry_def Bot_New_def)

lemma no_empty_entry_execSubscribe:
  "no_empty_entry b \<Longrightarrow> no_empty_entry (fst (snd (execSubscribe cn c ev b rt)))"
proof (cases "1 \<le> NArg c")
  case False
  assume "no_empty_entry b"
  with False show ?thesis by (simp add: execSubscribe_def)
next
  case True
  assume inv: "no_empty_entry b"
  show ?thesis
  proof (cases "Bot.subscriptions b (topicURL_of c)")
    case None
    with True inv show ?thesis
      by (simp add: execSubscribe_first no_empty_entry_def)
  next
    case (Some cs)
    with True inv show ?thesis
      by (simp add: execSubscribe_again no_empty_entry_def)
  qed
qed

lemma no_empty_entry_execUnsubscribe:
  "no_empty_entry b \<Longrightarrow> no_empty_entry (fst (snd (execUnsubscribe cn c ev b rt)))"
proof (cases "1 \<le> NArg c")
  case False
  assume "no_empty_entry b"
  with False show ?thesis by (simp add: execUnsubscribe_def)
next
  case True
  assume inv: "no_empty_entry b"
  show ?thesis
  proof (cases "Bot.subscriptions b (topicURL_of c)")
    case None
    with True inv show ?thesis
      by (simp add: execUnsubscribe_no_topic)
  next
    case (Some cs)
    show ?thesis
    proof (cases "RemoveString cs (Channel ev) = []")
      case True
      with \<open>1 \<le> NArg c\<close> Some inv show ?thesis
        by (simp add: execUnsubscribe_last no_empty_entry_def)
    next
      case False
      with \<open>1 \<le> NArg c\<close> Some inv show ?thesis
        by (simp add: execUnsubscribe_keep no_empty_entry_def)
    qed
  qed
qed

section \<open>Only contexts created before are cancelled\<close>

lemma runtime_ok_New: "runtime_ok Client_New Runtime_New"
  by (simp add: runtime_ok_def Client_New_def Runtime_New_def)

lemma runtime_ok_Subscribe:
  "runtime_ok cl rt \<Longrightarrow>
   runtime_ok (fst (Client_Subscribe t cl rt)) (snd (Client_Subscribe t cl rt))"
  by (cases "Client.subscriptions cl t")
    (auto simp: runtime_ok_def Client_Subscribe_def Let_def less_Suc_eq)

lemma runtime_ok_Unsubscribe:
  "runtime_ok cl rt \<Longrightarrow>
   runtime_ok (fst (Client_Unsubscribe t cl rt)) (snd (Client_Unsubscribe t cl rt))"
  by (cases "Client.subscriptions cl t") (auto simp: runtime_ok_def Client_Unsubscribe_def)

lemma runtime_ok_chat: "runtime_ok cl rt \<Longrightarrow> runtime_ok cl (rt\<lparr>chat := x\<rparr>)"
  by (simp add: runtime_ok_def)

lemma runtime_ok_fresh_context: "runtime_ok cl rt \<Longrightarrow> contexts rt \<notin> cancelled rt"
  by (auto simp: runtime_ok_def)

section \<open>Facts about the concrete inputs\<close>

lemma topicURL_mytopic: "topicURL_of ctx_mytopic = ''https://ntfy.sh/mytopic''"
  by (simp add: topicURL_of_def ctx_mytopic_def String_def default_flags_def Config_New_def
      DefaultBaseURL_def First_def)

lemma NArg_mytopic: "1 \<le> NArg ctx_mytopic"
  by (simp add: NArg_def ctx_mytopic_def)

lemma start_subscriptions: "Bot.subscriptions (fst start) t = None"
  by (simp add: start_def Bot_New_def)

lemmas run_defs =
  exec_all_def exec_command_def execSubscribe_def execUnsubscribe_def start_def Bot_New_def
  Runtime_New_def Client_New_def Client_Subscribe_def Client_Unsubscribe_def conn_React_def
  channels_def Let_def NArg_def topicURL_of_def String_def First_def default_flags_def
  Config_New_def DefaultBaseURL_def ctx_mytopic_def ctx_example_def ev_A_def ev_B_def
  ok_conn_def live_connectors_def

section \<open>Subscribing twice\<close>

text \<open>
  Claim C1 says that after a channel has subscribed to a topic twice the topic's channel
  set holds exactly one entry for it. \<^verbatim>\<open>execSubscribe\<close> appends without looking: from the
  fresh state, two subscriptions of channel \<open>A\<close> to \<open>mytopic\<close> leave two entries for \<open>A\<close>.
\<close>

theorem subscribe_twice_counterexample:
  "count_list (channels (fst (exec_all ok_conn [(CmdSubscribe, ctx_mytopic, ev_A), (CmdSubscribe, ctx_mytopic, ev_A)] start))
      ''https://ntfy.sh/mytopic'') ''A'' = 2"
  by (simp add: exec_all_def exec_command_def execSubscribe_def start_def Bot_New_def
      Runtime_New_def Client_New_def topicURL_mytopic NArg_def ctx_mytopic_def[THEN arg_cong, of args]
      Client_Subscribe_def conn_React_def channels_def ev_A_def Let_def)

text \<open>
  Claim C1, as the code has it: subscribing the same channel twice to the same topic
  appends the channel to the topic's list each time, so the list gains two entries; the
  second subscribe starts no connector. For a topic that already had an entry the live
  connectors are those from before; for a topic with no entry, no client subscription
  and no live connector, exactly one live connector exists afterwards.
\<close>

theorem subscribe_twice_appends:
  assumes "1 \<le> NArg c"
    and "exec_all cn [(CmdSubscribe, c, ev), (CmdSubscribe, c, ev)] (b, rt) = (b2, rt2)"
  shows "channels b2 (topicURL_of c) = channels b (topicURL_of c) @ [Channel ev, Channel ev]
    \<and> (Bot.subscriptions b (topicURL_of c) \<noteq> None \<longrightarrow>
         live_connectors rt2 (topicURL_of c) = live_connectors rt (topicURL_of c))
    \<and> (Bot.subscriptions b (topicURL_of c) = None
         \<and> Client.subscriptions (client b) (topicURL_of c) = None
         \<and> live_connectors rt (topicURL_of c) = [] \<and> contexts rt \<notin> cancelled rt \<longrightarrow>
         live_connectors rt2 (topicURL_of c) = [(contexts rt, topicURL_of c)])"
proof (cases "Bot.subscriptions b (topicURL_of c)")
  case None
  have first: "exec_command cn (CmdSubscribe, c, ev) (b, rt) =
      (b\<lparr>client := fst (Client_Subscribe (topicURL_of c) (client b) rt),
         subscriptions := (Bot.subscriptions b)(topicURL_of c \<mapsto> [Channel ev])\<rparr>,
       (snd (Client_Subscribe (topicURL_of c) (client b) rt))
         \<lparr>chat := chat (snd (Client_Subscribe (topicURL_of c) (client b) rt))
             @ [React (Channel ev) (ID ev) thumbs_up]\<rparr>)"
    using assms(1) None by (simp add: exec_command_def execSubscribe_first)
  have second: "(b2, rt2) = exec_command cn (CmdSubscribe, c, ev)
      (exec_command cn (CmdSubscribe, c, ev) (b, rt))"
    using assms(2) by (simp add: exec_all_def)
  have b2: "channels b2 (topicURL_of c) = [Channel ev, Channel ev]"
    and rt2: "live_connectors rt2 (topicURL_of c) =
       live_connectors (snd (Client_Subscribe (topicURL_of c) (client b) rt)) (topicURL_of c)"
    using second assms(1) unfolding first
    by (simp_all add: exec_command_def execSubscribe_again channels_def)
  have fresh: "live_connectors (snd (Client_Subscribe (topicURL_of c) (client b) rt)) (topicURL_of c)
       = [(contexts rt, topicURL_of c)]"
    if "Client.subscriptions (client b) (topicURL_of c) = None"
      "live_connectors rt (topicURL_of c) = []" "contexts rt \<notin> cancelled rt"
    using that by (simp add: Client_Subscribe_fresh live_connectors_def)
  show ?thesis using None b2 rt2 fresh by (simp add: channels_def)
next
  case (Some cs)
  have first: "exec_command cn (CmdSubscribe, c, ev) (b, rt) =
      (b\<lparr>subscriptions := (Bot.subscriptions b)(topicURL_of c \<mapsto> cs @ [Channel ev])\<rparr>,
       rt\<lparr>chat := chat rt @ [React (Channel ev) (ID ev) thumbs_up]\<rparr>)"
    using assms(1) Some by (simp add: exec_command_def execSubscribe_again)
  have second: "(b2, rt2) = exec_command cn (CmdSubscribe, c, ev)
      (exec_command cn (CmdSubscribe, c, ev) (b, rt))"
    using assms(2) by (simp add: exec_all_def)
  have "channels b2 (topicURL_of c) = cs @ [Channel ev, Channel ev]"
    and "live_connectors rt2 (topicURL_of c) = live_connectors rt (topicURL_of c)"
    using second assms(1) unfolding first
    by (simp_all add: exec_command_def execSubscribe_again channels_def)
  then show ?thesis using Some by (simp add: channels_def)
qed

text \<open>The fresh state, channel \<open>A\<close> and \<open>mytopic\<close> on the default server.\<close>

theorem subscribe_twice_appends_witness:
  "channels (fst (exec_all ok_conn [(CmdSubscribe, ctx_mytopic, ev_A), (CmdSubscribe, ctx_mytopic, ev_A)] start))
      ''https://ntfy.sh/mytopic'' = [''A'', ''A'']
   \<and> live_connectors (snd (exec_all ok_conn [(CmdSubscribe, ctx_mytopic, ev_A), (CmdSubscribe, ctx_mytopic, ev_A)] start))
      ''https://ntfy.sh/mytopic'' = [(0, ''https://ntfy.sh/mytopic'')]"
proof -
  have fresh: "Bot.subscriptions (fst start) (topicURL_of ctx_mytopic) = None
      \<and> Client.subscriptions (client (fst start)) (topicURL_of ctx_mytopic) = None
      \<and> live_connectors (snd start) (topicURL_of ctx_mytopic) = []
      \<and> contexts (snd start) \<notin> cancelled (snd start)"
    by (simp add: start_def Bot_New_def Client_New_def Runtime_New_def live_connectors_def)
  have ch: "channels (fst start) (topicURL_of ctx_mytopic) = []"
    by (simp add: channels_def start_subscriptions)
  have c0: "contexts (snd start) = 0" by (simp add: start_def Runtime_New_def)
  show ?thesis
    using subscribe_twice_appends [OF NArg_mytopic, of ok_conn ev_A "fst start" "snd start"
        "fst (exec_all ok_conn [(CmdSubscribe, ctx_mytopic, ev_A), (CmdSubscribe, ctx_mytopic, ev_A)] start)"
        "snd (exec_all ok_conn [(CmdSubscribe, ctx_mytopic, ev_A), (CmdSubscribe, ctx_mytopic, ev_A)] start)"]
      fresh ch c0
    by (simp add: topicURL_mytopic ev_A_def)
qed

section \<open>Subscribing again after the last channel has left\<close>

lemma Client_Unsubscribe_keeps_entry:
  "Client.subscriptions (fst (Client_Unsubscribe t cl rt)) = Client.subscriptions cl"
  by (simp add: Client_Unsubscribe_def split: option.splits)

lemma lifecycle_starts_no_second_connector:
  assumes "1 \<le> NArg c"
    and "Bot.subscriptions b (topicURL_of c) = None"
    and "Client.subscriptions (client b) (topicURL_of c) = None"
  shows "channels (fst (exec_all cn
             [(CmdSubscribe, c, ev), (CmdUnsubscribe, c, ev), (CmdSubscribe, c, ev)] (b, rt)))
           (topicURL_of c) = [Channel ev]
    \<and> goroutines (snd (exec_all cn
             [(CmdSubscribe, c, ev), (CmdUnsubscribe, c, ev), (CmdSubscribe, c, ev)] (b, rt)))
        = goroutines rt @ [(contexts rt, topicURL_of c)]
    \<and> contexts rt \<in> cancelled (snd (exec_all cn
             [(CmdSubscribe, c, ev), (CmdUnsubscribe, c, ev), (CmdSubscribe, c, ev)] (b, rt)))"
proof -
  let ?t = "topicURL_of c"
  let ?cl1 = "(client b)\<lparr>Client.subscriptions := (Client.subscriptions (client b))(?t \<mapsto> \<lparr>cancel = contexts rt\<rparr>)\<rparr>"
  let ?rt1 = "rt\<lparr>contexts := Suc (contexts rt), goroutines := goroutines rt @ [(contexts rt, ?t)],
                 chat := chat rt @ [React (Channel ev) (ID ev) thumbs_up]\<rparr>"
  let ?b1 = "b\<lparr>client := ?cl1, subscriptions := (Bot.subscriptions b)(?t \<mapsto> [Channel ev])\<rparr>"
  have s1: "exec_command cn (CmdSubscribe, c, ev) (b, rt) = (?b1, ?rt1)"
    using assms by (simp add: exec_command_def execSubscribe_first Client_Subscribe_fresh)
  let ?rt2 = "?rt1\<lparr>cancelled := insert (contexts rt) (cancelled rt),
                 chat := chat ?rt1 @ [React (Channel ev) (ID ev) thumbs_up]\<rparr>"
  let ?b2 = "?b1\<lparr>subscriptions := (Bot.subscriptions ?b1)(?t := None)\<rparr>"
  have s2: "exec_command cn (CmdUnsubscribe, c, ev) (?b1, ?rt1) = (?b2, ?rt2)"
    using assms(1)
    by (simp add: exec_command_def execUnsubscribe_last [where cs = "[Channel ev]"]
        Client_Unsubscribe_def)
  have gone: "Bot.subscriptions ?b2 ?t = None" by simp
  have s3: "exec_command cn (CmdSubscribe, c, ev) (?b2, ?rt2) =
      (?b2\<lparr>subscriptions := (Bot.subscriptions ?b2)(?t \<mapsto> [Channel ev])\<rparr>,
       ?rt2\<lparr>chat := chat ?rt2 @ [React (Channel ev) (ID ev) thumbs_up]\<rparr>)"
    using assms(1) gone
    by (simp add: exec_command_def execSubscribe_first Client_Subscribe_def)
  have "exec_all cn [(CmdSubscribe, c, ev), (CmdUnsubscribe, c, ev), (CmdSubscribe, c, ev)] (b, rt)
      = (?b2\<lparr>subscriptions := (Bot.subscriptions ?b2)(?t \<mapsto> [Channel ev])\<rparr>,
         ?rt2\<lparr>chat := chat ?rt2 @ [React (Channel ev) (ID ev) thumbs_up]\<rparr>)"
    by (simp only: exec_all_def foldl.simps s1 s2 s3)
  then show ?thesis by (simp add: channels_def)
qed

text \<open>
  Claim C2 says that a subscribe after a full lifecycle (subscribe, then the last channel
  unsubscribes) starts exactly one new connector. \<^verbatim>\<open>Client.Unsubscribe\<close> cancels the
  context and keeps the entry of the topic in the client's map, so the next
  \<^verbatim>\<open>Client.Subscribe\<close> finds the entry and returns without starting anything: the
  channel is registered again, the only goroutine ever started is the cancelled one, and
  no connector of the topic is live.
\<close>

theorem resubscribe_after_lifecycle:
  "channels (fst (exec_all ok_conn
       [(CmdSubscribe, ctx_mytopic, ev_A), (CmdUnsubscribe, ctx_mytopic, ev_A),
        (CmdSubscribe, ctx_mytopic, ev_A)] start)) ''https://ntfy.sh/mytopic'' = [''A'']
   \<and> live_connectors (snd (exec_all ok_conn
       [(CmdSubscribe, ctx_mytopic, ev_A), (CmdUnsubscribe, ctx_mytopic, ev_A),
        (CmdSubscribe, ctx_mytopic, ev_A)] start)) ''https://ntfy.sh/mytopic'' = []
   \<and> goroutines (snd (exec_all ok_conn
       [(CmdSubscribe, ctx_mytopic, ev_A), (CmdUnsubscribe, ctx_mytopic, ev_A),
        (CmdSubscribe, ctx_mytopic, ev_A)] start)) = [(0, ''https://ntfy.sh/mytopic'')]
   \<and> cancelled (snd (exec_all ok_conn
       [(CmdSubscribe, ctx_mytopic, ev_A), (CmdUnsubscribe, ctx_mytopic, ev_A),
        (CmdSubscribe, ctx_mytopic, ev_A)] start)) = {0}"
  by (simp add: run_defs)

section \<open>Unsubscribing what is not subscribed\<close>

text \<open>
  Claim C8 says that unsubscribing an unknown topic never returns an error. The command
  returns what the thumbs-up reaction returns: with a chat connection that refuses the
  reaction, unsubscribing from the fresh state returns the connection's error.
\<close>

theorem unsubscribe_unknown_counterexample:
  "fst (execUnsubscribe failing_conn ctx_mytopic ev_A (fst start) (snd start))
     = Some (Error ''HTTP 403 Forbidden'')"
  by (simp add: execUnsubscribe_no_topic [OF NArg_mytopic start_subscriptions] failing_conn_def)

text \<open>
  Claim C8, as the code has it: when the channel is not in the topic's list (also when the
  topic has no entry), in a state where no topic is mapped to an empty slice,
  \<^verbatim>\<open>execUnsubscribe\<close> leaves the bot (the subscription map and the client) as it was,
  cancels no context and starts no goroutine; it sends the thumbs-up reaction and returns
  what that call returns, so it raises no error of its own.
\<close>

theorem unsubscribe_absent_noop:
  assumes "no_empty_entry b" and "1 \<le> NArg c"
    and "Channel ev \<notin> set (channels b (topicURL_of c))"
  shows "execUnsubscribe cn c ev b rt =
     (React_result cn (Channel ev) (ID ev) thumbs_up, b,
      rt\<lparr>chat := chat rt @ [React (Channel ev) (ID ev) thumbs_up]\<rparr>)"
proof (cases "Bot.subscriptions b (topicURL_of c)")
  case None
  with assms(2) show ?thesis by (simp add: execUnsubscribe_no_topic)
next
  case (Some cs)
  with assms(1) have ne: "cs \<noteq> []" by (auto simp: no_empty_entry_def)
  from Some assms(3) have "RemoveString cs (Channel ev) = cs"
    by (simp add: channels_def RemoveString_absent)
  moreover have "b\<lparr>subscriptions := (Bot.subscriptions b)(topicURL_of c \<mapsto> cs)\<rparr> = b"
    using Some by (simp add: map_upd_triv)
  ultimately show ?thesis using assms(2) Some ne by (simp add: execUnsubscribe_keep)
qed

text \<open>The fresh state and a chat connection that accepts the reaction: the result is nil.\<close>

theorem unsubscribe_absent_noop_witness:
  "no_empty_entry (fst start) \<and> 1 \<le> NArg ctx_mytopic
   \<and> ''A'' \<notin> set (channels (fst start) ''https://ntfy.sh/mytopic'')
   \<and> execUnsubscribe ok_conn ctx_mytopic ev_A (fst start) (snd start) =
       (None, fst start, (snd start)\<lparr>chat := [React ''A'' ''m1'' thumbs_up]\<rparr>)"
proof -
  have inv: "no_empty_entry (fst start)" by (simp add: start_def no_empty_entry_New)
  have absent: "Channel ev_A \<notin> set (channels (fst start) (topicURL_of ctx_mytopic))"
    by (simp add: channels_def start_subscriptions)
  have "''A'' \<notin> set (channels (fst start) ''https://ntfy.sh/mytopic'')"
    by (simp add: channels_def start_subscriptions)
  moreover have "execUnsubscribe ok_conn ctx_mytopic ev_A (fst start) (snd start) =
       (None, fst start, (snd start)\<lparr>chat := [React ''A'' ''m1'' thumbs_up]\<rparr>)"
    using unsubscribe_absent_noop [OF inv NArg_mytopic absent, of ok_conn "snd start"]
    by (simp add: ev_A_def ok_conn_def start_def Runtime_New_def)
  ultimately show ?thesis using inv NArg_mytopic by simp
qed

section \<open>Only the first occurrence is removed\<close>

text \<open>
  Claim C10: \<^verbatim>\<open>RemoveString(s, r)\<close> returns \<open>s\<close> unchanged when \<open>r\<close> is absent and
  otherwise removes the first occurrence of \<open>r\<close> only (what stands before the first \<open>r\<close>
  and everything after it are kept). Consequently, when a channel appears more than once
  in a topic's list, one \<^verbatim>\<open>execUnsubscribe\<close> leaves the topic's entry in place with the
  channel still in it, one occurrence fewer, and cancels nothing.
\<close>

theorem RemoveString_first_occurrence:
  "(r \<notin> set s \<longrightarrow> RemoveString s r = s)
   \<and> (r \<notin> set xs \<longrightarrow> RemoveString (xs @ r # ys) r = xs @ ys)
   \<and> (1 \<le> NArg c \<and> Bot.subscriptions b (topicURL_of c) = Some cs
        \<and> 1 < count_list cs (Channel ev)
        \<and> execUnsubscribe cn c ev b rt = (err, b', rt') \<longrightarrow>
      Bot.subscriptions b' (topicURL_of c) = Some (RemoveString cs (Channel ev))
      \<and> Channel ev \<in> set (RemoveString cs (Channel ev))
      \<and> count_list (RemoveString cs (Channel ev)) (Channel ev) = count_list cs (Channel ev) - 1
      \<and> cancelled rt' = cancelled rt)"
proof (intro conjI impI)
  assume "r \<notin> set s" then show "RemoveString s r = s" by (rule RemoveString_absent)
next
  assume "r \<notin> set xs" then show "RemoveString (xs @ r # ys) r = xs @ ys"
    by (rule RemoveString_split)
next
  assume h: "1 \<le> NArg c \<and> Bot.subscriptions b (topicURL_of c) = Some cs
        \<and> 1 < count_list cs (Channel ev)
        \<and> execUnsubscribe cn c ev b rt = (err, b', rt')"
  then have mem: "Channel ev \<in> set cs"
    by (metis count_list_0_iff not_less_zero)
  have cnt: "count_list (RemoveString cs (Channel ev)) (Channel ev) = count_list cs (Channel ev) - 1"
    using mem by (simp add: RemoveString_count)
  with h have pos: "0 < count_list (RemoveString cs (Channel ev)) (Channel ev)" by simp
  then have still: "Channel ev \<in> set (RemoveString cs (Channel ev))"
    by (metis count_list_0_iff less_numeral_extra(3))
  then have ne: "RemoveString cs (Channel ev) \<noteq> []" by auto
  have res: "(err, b', rt') =
     (React_result cn (Channel ev) (ID ev) thumbs_up,
      b\<lparr>subscriptions := (Bot.subscriptions b)(topicURL_of c \<mapsto> RemoveString cs (Channel ev))\<rparr>,
      rt\<lparr>chat := chat rt @ [React (Channel ev) (ID ev) thumbs_up]\<rparr>)"
    using h ne execUnsubscribe_keep [of c b cs ev cn rt] by simp
  from res show "Bot.subscriptions b' (topicURL_of c) = Some (RemoveString cs (Channel ev))" by simp
  from still show "Channel ev \<in> set (RemoveString cs (Channel ev))" .
  from cnt show "count_list (RemoveString cs (Channel ev)) (Channel ev) = count_list cs (Channel ev) - 1" .
  from res show "cancelled rt' = cancelled rt" by simp
qed

text \<open>The list \<open>[A, B, A]\<close> of \<open>mytopic\<close>: channel \<open>A\<close> unsubscribes once and is still there.\<close>

theorem RemoveString_first_occurrence_witness:
  "RemoveString [''B''] ''A'' = [''B'']
   \<and> RemoveString ([''B''] @ ''A'' # [''A'']) ''A'' = [''B''] @ [''A'']
   \<and> Bot.subscriptions (fst (snd (execUnsubscribe ok_conn ctx_mytopic ev_A bot_AB Runtime_New)))
         ''https://ntfy.sh/mytopic'' = Some [''B'', ''A'']
   \<and> cancelled (snd (snd (execUnsubscribe ok_conn ctx_mytopic ev_A bot_AB Runtime_New))) = {}"
proof -
  have h: "1 \<le> NArg ctx_mytopic
      \<and> Bot.subscriptions bot_AB (topicURL_of ctx_mytopic) = Some [''A'', ''B'', ''A'']
      \<and> 1 < count_list [''A'', ''B'', ''A''] (Channel ev_A)
      \<and> execUnsubscribe ok_conn ctx_mytopic ev_A bot_AB Runtime_New =
          (fst (execUnsubscribe ok_conn ctx_mytopic ev_A bot_AB Runtime_New),
           fst (snd (execUnsubscribe ok_conn ctx_mytopic ev_A bot_AB Runtime_New)),
           snd (snd (execUnsubscribe ok_conn ctx_mytopic ev_A bot_AB Runtime_New)))"
    using NArg_mytopic by (simp add: topicURL_mytopic bot_AB_def ev_A_def)
  have a: "''A'' \<notin> set [''B'']" by simp
  show ?thesis
    using RemoveString_first_occurrence [of "''A''" "[''B'']" "[''B'']" "[''A'']" ctx_mytopic
        bot_AB "[''A'', ''B'', ''A'']" ev_A ok_conn Runtime_New
        "fst (execUnsubscribe ok_conn ctx_mytopic ev_A bot_AB Runtime_New)"
        "fst (snd (execUnsubscribe ok_conn ctx_mytopic ev_A bot_AB Runtime_New))"
        "snd (snd (execUnsubscribe ok_conn ctx_mytopic ev_A bot_AB Runtime_New))"] h a
    by (simp add: topicURL_mytopic ev_A_def Runtime_New_def)
qed

section \<open>Fan-out\<close>

lemma ShortURL_ntfy: "ShortURL (''https://ntfy.sh/'' @ t) = ''ntfy.sh/'' @ t"
  by (simp add: ShortURL_def TrimPrefix_def)

lemma foldl_conn_Send:
  "foldl (\<lambda>r channel. snd (conn_Send cn channel message r)) rt cs
     = rt\<lparr>chat := chat rt @ map (\<lambda>channel. Send channel message) cs\<rparr>"
proof (induction cs arbitrary: rt)
  case Nil
  then show ?case by simp
next
  case (Cons channel cs)
  show ?case by (simp add: Cons.IH, simp add: conn_Send_def)
qed

lemma fan_out_each_entry:
  assumes "Event m = ''message''"
    and "Bot.subscriptions b (''https://ntfy.sh/'' @ Topic m) = Some cs"
  shows "handleSubscriptionMessage cn (Some m) b rt =
     Return (None, rt\<lparr>chat := chat rt @
        map (\<lambda>channel. Send channel (''**ntfy.sh/'' @ Topic m @ ''** '' @ Message.Message m)) cs\<rparr>)"
  using assms
  by (simp add: handleSubscriptionMessage_def ShortURL_def TrimPrefix_def foldl_conn_Send Let_def)

lemma fan_out_default_server:
  assumes "Event m = ''message''"
    and "Bot.subscriptions b (''https://ntfy.sh/'' @ Topic m) = Some [A, B]"
  shows "handleSubscriptionMessage cn (Some m) b rt =
     Return (None, rt\<lparr>chat := chat rt @
        [Send A (''**ntfy.sh/'' @ Topic m @ ''** '' @ Message.Message m),
         Send B (''**ntfy.sh/'' @ Topic m @ ''** '' @ Message.Message m)]\<rparr>)"
  using assms
  by (simp add: handleSubscriptionMessage_def ShortURL_def TrimPrefix_def conn_Send_def Let_def)

lemma handleSubscriptionMessage_nil: "handleSubscriptionMessage cn None b rt = Panic"
  by (simp add: handleSubscriptionMessage_def)

text \<open>
  Claim C3 says that a message for a topic whose key was formed from any \<^verbatim>\<open>--server\<close>
  base URL is sent once to each subscribed channel. \<^verbatim>\<open>handleSubscriptionMessage\<close> looks
  the topic up under \<^verbatim>\<open>"https://ntfy.sh/" + m.Topic\<close> whatever the server was. After
  channels \<open>A\<close> and \<open>B\<close> subscribed to \<open>mytopic\<close> with \<^verbatim>\<open>--server=https://example.com\<close>,
  the key is \<^verbatim>\<open>https://example.com/mytopic\<close>, and a message for \<open>mytopic\<close> is sent to
  nobody: the chat has seen the two reactions of the subscriptions and nothing else.
\<close>

theorem other_server_never_delivered:
  "Bot.subscriptions (fst (exec_all ok_conn
       [(CmdSubscribe, ctx_example, ev_A), (CmdSubscribe, ctx_example, ev_B)] start))
     ''https://example.com/mytopic'' = Some [''A'', ''B'']
   \<and> handleSubscriptionMessage ok_conn (Some msg_hello)
       (fst (exec_all ok_conn [(CmdSubscribe, ctx_example, ev_A), (CmdSubscribe, ctx_example, ev_B)] start))
       (snd (exec_all ok_conn [(CmdSubscribe, ctx_example, ev_A), (CmdSubscribe, ctx_example, ev_B)] start))
     = Return (None, snd (exec_all ok_conn
          [(CmdSubscribe, ctx_example, ev_A), (CmdSubscribe, ctx_example, ev_B)] start))
   \<and> chat (snd (exec_all ok_conn
       [(CmdSubscribe, ctx_example, ev_A), (CmdSubscribe, ctx_example, ev_B)] start))
     = [React ''A'' ''m1'' thumbs_up, React ''B'' ''m2'' thumbs_up]"
  by (simp add: run_defs handleSubscriptionMessage_def msg_hello_def)

section \<open>Tokenizing\<close>

lemma handleChatMessageEvent_args:
  "Fields (messageEvent.Message ev) = MentionBot cn # rest \<Longrightarrow>
   run ev (MentionBot cn # rest) b rt = (None, b', rt') \<Longrightarrow>
   handleChatMessageEvent cn run ev b rt = (None, b', rt')"
  by (simp add: handleChatMessageEvent_def)

lemma Fields_unicode_space:
  "Fields (''subscribe'' @ [CHR 0xC2, CHR 0xA0] @ ''my'' @ [CHR 0xE2, CHR 0x80, CHR 0x83]
           @ [CHR 0xE3, CHR 0x80, CHR 0x80] @ ''topic  '' @ [CHR 0xE2, CHR 0x80] @ ''x'')
     = [''subscribe'', ''my'', ''topic'', [CHR 0xE2, CHR 0x80] @ ''x'']"
  by (simp add: Fields_def space_width_def space_runes_def)

text \<open>
  Claim C4 says that a quoted argument reaches the command handlers as one token. The
  dispatcher splits with \<^verbatim>\<open>strings.Fields\<close> (the source marks it: FIXME handle
  quotes): the message \<^verbatim>\<open><@!1> publish mytopic "hello world"\<close> reaches \<^verbatim>\<open>runCLI\<close> with
  the two tokens \<^verbatim>\<open>"hello\<close> and \<^verbatim>\<open>world"\<close>, quotes included.
\<close>

theorem quoted_argument_is_split:
  "Fields (messageEvent.Message ev_quoted) =
     [''<@!1>'', ''publish'', ''mytopic'', CHR 0x22 # ''hello'', ''world'' @ [CHR 0x22]]
   \<and> handleChatMessageEvent ok_conn run ev_quoted b rt =
       (case run ev_quoted
               [''<@!1>'', ''publish'', ''mytopic'', CHR 0x22 # ''hello'', ''world'' @ [CHR 0x22]] b rt of
          (None, b', rt') \<Rightarrow> (None, b', rt')
        | (Some err, b', rt') \<Rightarrow> (None, b', rt'\<lparr>chat := chat rt' @ [Send ''A'' (err_Error err)]\<rparr>))"
proof -
  have f: "Fields (messageEvent.Message ev_quoted) =
     [''<@!1>'', ''publish'', ''mytopic'', CHR 0x22 # ''hello'', ''world'' @ [CHR 0x22]]"
    by (simp add: Fields_def ev_quoted_def space_width_def space_runes_def)
  show ?thesis
    unfolding f handleChatMessageEvent_def
    by (simp add: ok_conn_def conn_Send_def ev_quoted_def split: prod.splits option.splits)
qed

section \<open>Where event kinds are filtered\<close>

lemma scan_all_decoded:
  "map dec lines = map Inr ms \<Longrightarrow> scan dec lines msgChan = (None, msgChan @ ms)"
proof (induction lines arbitrary: ms msgChan)
  case Nil
  then show ?case by simp
next
  case (Cons line lines)
  then obtain m ms' where ms: "ms = m # ms'" and d: "dec line = Inr m"
    and rest: "map dec lines = map Inr ms'"
    by (cases ms) auto
  from Cons.IH [OF rest] show ?case by (simp add: ms d)
qed

lemma scan_decode_error:
  "map dec lines = map Inr ms \<Longrightarrow> dec bad = Inl err \<Longrightarrow>
   scan dec (lines @ bad # later) msgChan = (Some err, msgChan @ ms)"
proof (induction lines arbitrary: ms msgChan)
  case Nil
  then show ?case by simp
next
  case (Cons line lines)
  then obtain m ms' where ms: "ms = m # ms'" and d: "dec line = Inr m"
    and rest: "map dec lines = map Inr ms'"
    by (cases ms) auto
  from Cons.IH [OF rest Cons.prems(2)] show ?case by (simp add: ms d)
qed

text \<open>
  Claim C6 says that the connector pushes only records whose event is \<^verbatim>\<open>message\<close>.
  \<^verbatim>\<open>handleConnection\<close> sends every decoded record to the channel: a keep-alive record
  read from the stream is pushed.
\<close>

theorem connector_pushes_keepalive_counterexample:
  "handleConnection dec_keepalive (ResponseBody [line_keepalive]) [] = (None, [Some msg_keepalive])
   \<and> Event msg_keepalive \<noteq> ''message''"
  by (simp add: handleConnection_def dec_keepalive_def msg_keepalive_def)

text \<open>
  Claim C6, as the code has it: the connector pushes every decoded record of the stream to
  the shared channel, whatever its event kind; \<^verbatim>\<open>handleSubscriptionMessage\<close> returns at
  once for a record whose event is not \<^verbatim>\<open>message\<close>, so such a record is never sent to
  any chat channel.
\<close>

theorem only_router_filters_events:
  "(map dec lines = map Inr ms \<longrightarrow>
      handleConnection dec (ResponseBody lines) msgChan = (None, msgChan @ ms))
   \<and> (Event m \<noteq> ''message'' \<longrightarrow>
        handleSubscriptionMessage cn (Some m) b rt = Return (None, rt))"
  by (simp add: handleConnection_def scan_all_decoded handleSubscriptionMessage_def)

text \<open>Two keep-alive lines are both pushed; the router sends nothing for a keep-alive.\<close>

theorem only_router_filters_events_witness:
  "handleConnection dec_keepalive (ResponseBody [line_keepalive, line_keepalive]) []
     = (None, [Some msg_keepalive, Some msg_keepalive])
   \<and> handleSubscriptionMessage ok_conn (Some msg_keepalive) bot_AB Runtime_New
     = Return (None, Runtime_New)"
proof -
  have d: "map dec_keepalive [line_keepalive, line_keepalive]
      = map Inr [Some msg_keepalive, Some msg_keepalive]"
    by (simp add: dec_keepalive_def)
  have e: "Event msg_keepalive \<noteq> ''message''" by (simp add: msg_keepalive_def)
  show ?thesis
    using only_router_filters_events [of dec_keepalive "[line_keepalive, line_keepalive]"
        "[Some msg_keepalive, Some msg_keepalive]" "[]" msg_keepalive ok_conn bot_AB Runtime_New] d e
    by simp
qed

section \<open>The status code of a publish\<close>

lemma Publish_response:
  assumes "NewRequest h ''POST'' topicURL message = Inr req"
    and "apply_options options req = Inr req'"
    and "Do h req' = Inr resp"
  shows "Publish h topicURL message options =
     (if StatusCode resp > 299
      then Return (Some (Error (''unexpected response '' @ Sprintf_d (StatusCode resp)
                                @ '' from server'')))
      else Return None)"
  using assms by (simp add: Publish_def)

lemma Sprintf_d_300: "Sprintf_d 300 = ''300''"
  by (simp add: Sprintf_d_def decimal.simps)

lemma options_title_Hi:
  "apply_options [WithTitle ''Hi'', WithPriority [], WithTags []] req_mytopic =
     Inr (req_mytopic\<lparr>Header := [''X-Title'' \<mapsto> ''Hi'']\<rparr>)"
  by (simp add: WithTitle_def WithPriority_def WithTags_def Header_Set_def req_mytopic_def)

text \<open>
  Claim C9: when a publish call receives an HTTP response (the request was built, no
  option failed and \<^verbatim>\<open>Do\<close> answered), a status code of 300 or greater makes
  \<^verbatim>\<open>Publish\<close> return the error \<^verbatim>\<open>unexpected response <code> from server\<close> with the
  code in decimal, and a status code below 300 makes it return nil.
\<close>

theorem Publish_status_code:
  assumes "NewRequest h ''POST'' topicURL message = Inr req"
    and "apply_options options req = Inr req'"
    and "Do h req' = Inr resp"
  shows "(300 \<le> StatusCode resp \<longrightarrow>
            Publish h topicURL message options =
              Return (Some (Error (''unexpected response '' @ Sprintf_d (StatusCode resp)
                                   @ '' from server''))))
       \<and> (StatusCode resp < 300 \<longrightarrow> Publish h topicURL message options = Return None)"
proof (intro conjI impI)
  assume "300 \<le> StatusCode resp"
  then have "StatusCode resp > 299" by arith
  with Publish_response [OF assms]
  show "Publish h topicURL message options =
      Return (Some (Error (''unexpected response '' @ Sprintf_d (StatusCode resp)
                           @ '' from server'')))"
    by simp
next
  assume "StatusCode resp < 300"
  then have "\<not> StatusCode resp > 299" by arith
  with Publish_response [OF assms]
  show "Publish h topicURL message options = Return None" by simp
qed

text \<open>The two sides of the boundary, 300 and 299, with the title option set.\<close>

theorem Publish_status_code_witness:
  "Publish (http_status 300) ''https://ntfy.sh/mytopic'' ''hello world''
       [WithTitle ''Hi'', WithPriority [], WithTags []]
     = Return (Some (Error ''unexpected response 300 from server''))
   \<and> Publish (http_status 299) ''https://ntfy.sh/mytopic'' ''hello world''
       [WithTitle ''Hi'', WithPriority [], WithTags []]
     = Return None"
proof -
  have n: "NewRequest (http_status code) ''POST'' ''https://ntfy.sh/mytopic'' ''hello world''
      = Inr req_mytopic" for code
    by (simp add: NewRequest_def http_status_def req_mytopic_def)
  have d: "Do (http_status code) (req_mytopic\<lparr>Header := [''X-Title'' \<mapsto> ''Hi'']\<rparr>)
      = Inr \<lparr>StatusCode = code\<rparr>" for code
    by (simp add: http_status_def)
  show ?thesis
    using Publish_status_code [OF n options_title_Hi d, of 300]
      Publish_status_code [OF n options_title_Hi d, of 299]
    by (simp add: Sprintf_d_300)
qed

section \<open>The retry loop of a connector\<close>

lemma steps_append [simp]: "steps (xs @ ys) = steps xs @ steps ys"
  by (simp add: steps_def)

lemma steps_Attempt [simp]: "steps (Attempt u # xs) = Attempt u # steps xs"
  by (simp add: steps_def not_Log_def)

lemma steps_Wait [simp]: "steps (Wait n # xs) = Wait n # steps xs"
  by (simp add: steps_def not_Log_def)

lemma steps_Exited [simp]: "steps (Exited # xs) = Exited # steps xs"
  by (simp add: steps_def not_Log_def)

lemma steps_Log [simp]: "steps (Log l # xs) = steps xs"
  by (simp add: steps_def not_Log_def)

lemma steps_Nil [simp]: "steps [] = []"
  by (simp add: steps_def)

lemma steps_failure_log [simp]:
  "steps (case err of None \<Rightarrow> [] | Some e \<Rightarrow> [Log (f e)]) = []"
  by (cases err) simp_all

lemma handleConnectionLoop_steps:
  "handleConnectionLoop dec u turns tr ch = (r, tr', ch') \<Longrightarrow>
   (r \<longleftrightarrow> (\<exists>t \<in> set turns. ctx_Done t))
   \<and> steps tr' = steps tr
        @ concat (replicate (length (takeWhile (\<lambda>t. \<not> ctx_Done t) turns))
                    [Attempt (u @ ''/json''), Wait 5])
        @ (if r then [Attempt (u @ ''/json''), Exited] else [])"
proof (induction turns arbitrary: tr ch)
  case Nil
  then show ?case by auto
next
  case (Cons t turns)
  obtain err ch1 where hc: "handleConnection dec (meets t) ch = (err, ch1)"
    by (cases "handleConnection dec (meets t) ch")
  show ?case
  proof (cases "ctx_Done t")
    case True
    with Cons.prems hc show ?thesis by (auto simp: Let_def)
  next
    case False
    with Cons.prems hc
    have "handleConnectionLoop dec u turns
            (tr @ [Attempt (u @ ''/json'')]
                @ (case err of None \<Rightarrow> []
                   | Some e \<Rightarrow> [Log (''connection to '' @ u @ '' failed: '' @ err_Error e)])
                @ [Wait 5]) ch1 = (r, tr', ch')"
      by (simp add: Let_def)
    from Cons.IH [OF this] False show ?thesis by simp
  qed
qed

lemma attempt_outcome_handleConnection:
  "attempt_outcome dec st err ms \<Longrightarrow> handleConnection dec st msgChan = (err, msgChan @ ms)"
  by (induction rule: attempt_outcome.induct)
    (simp_all add: handleConnection_def scan_all_decoded scan_decode_error)

lemma attempt_outcome_unique:
  "attempt_outcome dec st err ms \<Longrightarrow> attempt_outcome dec st err' ms' \<Longrightarrow>
   err' = err \<and> ms' = ms"
  using attempt_outcome_handleConnection [of dec st err ms "[]"]
    attempt_outcome_handleConnection [of dec st err' ms' "[]"]
  by simp

lemma decoded_prefix:
  "\<forall>l \<in> set lines. \<forall>err. dec l \<noteq> Inl err \<Longrightarrow> \<exists>ms. map dec lines = map Inr ms"
proof (induction lines)
  case Nil
  then show ?case by simp
next
  case (Cons l lines)
  then obtain ms where ms: "map dec lines = map Inr ms" by auto
  from Cons.prems obtain m where "dec l = Inr m" by (cases "dec l") auto
  with ms have "map dec (l # lines) = map Inr (m # ms)" by simp
  then show ?case by blast
qed

lemma attempt_outcome_total: "\<exists>err ms. attempt_outcome dec st err ms"
proof (cases st)
  case (RequestError err)
  then show ?thesis by (auto intro: attempt_outcome.request_error)
next
  case (DoError err)
  then show ?thesis by (auto intro: attempt_outcome.connection_error)
next
  case (ResponseBody lines)
  show ?thesis
  proof (cases "\<exists>l \<in> set lines. \<exists>err. dec l = Inl err")
    case True
    from split_list_first_prop [OF True]
    obtain good bad later where split: "lines = good @ bad # later"
      and bad: "\<exists>err. dec bad = Inl err"
      and good: "\<forall>l \<in> set good. \<not> (\<exists>err. dec l = Inl err)"
      by blast
    from good obtain ms where "map dec good = map Inr ms"
      using decoded_prefix [of good dec] by auto
    with bad split ResponseBody show ?thesis
      by (auto intro: attempt_outcome.decode_error)
  next
    case False
    then obtain ms where "map dec lines = map Inr ms"
      using decoded_prefix [of lines dec] by auto
    with ResponseBody show ?thesis by (auto intro: attempt_outcome.stream_termination)
  qed
qed

lemma turns_run_Cons:
  "turns_run (t # turns) = (if ctx_Done t then [t] else t # turns_run turns)"
  by (simp add: turns_run_def)

lemma handleConnectionLoop_trace:
  assumes "handleConnectionLoop dec u turns tr ch = (r, tr', ch')"
    and "\<forall>t \<in> set turns. attempt_outcome dec (meets t) (err_of t) (pushed_of t)"
  shows "tr' = tr @ concat (map (\<lambda>t. turn_trace u t (err_of t)) (turns_run turns))
    \<and> ch' = ch @ concat (map pushed_of (turns_run turns))"
  using assms
proof (induction turns arbitrary: tr ch)
  case Nil
  then show ?case by (simp add: turns_run_def)
next
  case (Cons t turns)
  from Cons.prems(2) have "attempt_outcome dec (meets t) (err_of t) (pushed_of t)" by simp
  then have hc: "handleConnection dec (meets t) ch = (err_of t, ch @ pushed_of t)"
    by (rule attempt_outcome_handleConnection)
  show ?case
  proof (cases "ctx_Done t")
    case True
    with Cons.prems(1) hc show ?thesis
      by (auto simp: Let_def turns_run_Cons turn_trace_def)
  next
    case False
    with Cons.prems(1) hc
    have run: "handleConnectionLoop dec u turns
            (tr @ [Attempt (u @ ''/json'')]
                @ (case err_of t of None \<Rightarrow> []
                   | Some e \<Rightarrow> [Log (''connection to '' @ u @ '' failed: '' @ err_Error e)])
                @ [Wait 5]) (ch @ pushed_of t) = (r, tr', ch')"
      by (simp add: Let_def)
    from Cons.prems(2) have rest:
      "\<forall>t \<in> set turns. attempt_outcome dec (meets t) (err_of t) (pushed_of t)" by simp
    from Cons.IH [OF run rest] False show ?thesis
      by (simp add: turns_run_Cons turn_trace_def)
  qed
qed

text \<open>
  Claim C5: let every connection attempt of a run end in one of the claim's ways, with
  error \<open>err_of t\<close> and pushed records \<open>pushed_of t\<close> (a connection error, a decode error on
  a line, the end of the stream; \<open>attempt_outcome_total\<close> shows there is no other way).
  Then the loop returns exactly when cancellation is requested at some turn, and it runs
  the turns up to the first such turn. Its trace is, for each turn run, the attempt, the
  failure log when the attempt ended in an error, and then the 5-second wait followed by
  the next attempt, or the exit when the context is done. The channel has received the
  records read before each failure or end, in order, and nothing else. Without the log
  lines the trace is one attempt and one 5-second wait for every turn before the
  cancellation, then a last attempt and the exit if the loop returned.
\<close>

theorem retry_loop_until_cancelled:
  assumes "handleConnectionLoop dec topicURL turns [] msgChan = (returned, trace, msgChan')"
    and "\<forall>t \<in> set turns. attempt_outcome dec (meets t) (err_of t) (pushed_of t)"
  shows "(returned \<longleftrightarrow> (\<exists>t \<in> set turns. ctx_Done t))
    \<and> trace = concat (map (\<lambda>t. turn_trace topicURL t (err_of t)) (turns_run turns))
    \<and> msgChan' = msgChan @ concat (map pushed_of (turns_run turns))
    \<and> steps trace =
        concat (replicate (length (takeWhile (\<lambda>t. \<not> ctx_Done t) turns))
                  [Attempt (topicURL @ ''/json''), Wait 5])
        @ (if returned then [Attempt (topicURL @ ''/json''), Exited] else [])"
  using handleConnectionLoop_steps [OF assms(1)] handleConnectionLoop_trace [OF assms]
  by simp

text \<open>
  A refused connection, a stream whose second line is malformed (its third line is never
  read), a stream that ends, each followed by the wait, then the cancellation.
\<close>

theorem retry_loop_until_cancelled_witness:
  "fst (handleConnectionLoop dec_keepalive ''https://ntfy.sh/mytopic'' turns_example [] [])
   \<and> fst (snd (handleConnectionLoop dec_keepalive ''https://ntfy.sh/mytopic'' turns_example [] []))
      = [Attempt ''https://ntfy.sh/mytopic/json'',
         Log ''connection to https://ntfy.sh/mytopic failed: connection refused'', Wait 5,
         Attempt ''https://ntfy.sh/mytopic/json'',
         Log ''connection to https://ntfy.sh/mytopic failed: invalid character'', Wait 5,
         Attempt ''https://ntfy.sh/mytopic/json'', Wait 5,
         Attempt ''https://ntfy.sh/mytopic/json'',
         Log ''connection to https://ntfy.sh/mytopic failed: context canceled'',
         Log ''connection to https://ntfy.sh/mytopic exited'', Exited]
   \<and> snd (snd (handleConnectionLoop dec_keepalive ''https://ntfy.sh/mytopic'' turns_example [] []))
      = [Some msg_keepalive, Some msg_keepalive]"
proof -
  have t1: "attempt_outcome dec_keepalive (DoError (Error ''connection refused''))
      (Some (Error ''connection refused'')) []"
    by (rule attempt_outcome.connection_error)
  have t2: "attempt_outcome dec_keepalive (ResponseBody ([line_keepalive] @ ''{'' # [line_keepalive]))
      (Some (Error ''invalid character'')) [Some msg_keepalive]"
    by (rule attempt_outcome.decode_error) (simp_all add: dec_keepalive_def line_keepalive_def)
  have t3: "attempt_outcome dec_keepalive (ResponseBody [line_keepalive]) None [Some msg_keepalive]"
    by (rule attempt_outcome.stream_termination) (simp add: dec_keepalive_def)
  have t4: "attempt_outcome dec_keepalive (DoError (Error ''context canceled''))
      (Some (Error ''context canceled'')) []"
    by (rule attempt_outcome.connection_error)
  have ne: "[line_keepalive, ''{'', line_keepalive] \<noteq> [line_keepalive]" by simp
  have outcomes: "\<forall>t \<in> set turns_example.
      attempt_outcome dec_keepalive (meets t) (example_err t) (example_pushed t)"
    using t1 t2 t3 t4 ne by (simp add: turns_example_def example_err_def example_pushed_def)
  have run: "turns_run turns_example = turns_example"
    by (simp add: turns_run_def turns_example_def)
  define result where
    "result = handleConnectionLoop dec_keepalive ''https://ntfy.sh/mytopic'' turns_example [] []"
  have eq: "handleConnectionLoop dec_keepalive ''https://ntfy.sh/mytopic'' turns_example [] []
      = (fst result, fst (snd result), snd (snd result))"
    by (simp add: result_def)
  note loop = retry_loop_until_cancelled [OF eq outcomes, unfolded run]
  have some_done: "\<exists>t \<in> set turns_example. ctx_Done t"
    by (simp add: turns_example_def)
  have tr: "concat (map (\<lambda>t. turn_trace ''https://ntfy.sh/mytopic'' t (example_err t)) turns_example)
      = [Attempt ''https://ntfy.sh/mytopic/json'',
         Log ''connection to https://ntfy.sh/mytopic failed: connection refused'', Wait 5,
         Attempt ''https://ntfy.sh/mytopic/json'',
         Log ''connection to https://ntfy.sh/mytopic failed: invalid character'', Wait 5,
         Attempt ''https://ntfy.sh/mytopic/json'', Wait 5,
         Attempt ''https://ntfy.sh/mytopic/json'',
         Log ''connection to https://ntfy.sh/mytopic failed: context canceled'',
         Log ''connection to https://ntfy.sh/mytopic exited'', Exited]"
    using ne by (simp add: turns_example_def turn_trace_def example_err_def err_Error_def)
  have ch: "concat (map example_pushed turns_example) = [Some msg_keepalive, Some msg_keepalive]"
    by (simp add: turns_example_def example_pushed_def)
  from loop some_done tr ch show ?thesis
    unfolding result_def by simp
qed

section \<open>The publish command\<close>

text \<open>
  What the code of the repository does with \<^verbatim>\<open>publish mytopic hello world --title=Hi\<close>:
  the dispatcher splits the line into six tokens; how the command-line library sorts them
  into flags and positional arguments decides what \<^verbatim>\<open>execPublish\<close> publishes.
\<close>

lemma Fields_publish_line:
  "Fields (messageEvent.Message ev_publish) =
     [''<@!1>'', ''publish'', ''mytopic'', ''hello'', ''world'', ''--title=Hi'']"
  by (simp add: Fields_def ev_publish_def space_width_def space_runes_def)

lemma Publish_refused_url:
  "url_error h topicURL = Some err \<Longrightarrow> Publish h topicURL message options = Panic"
  by (simp add: Publish_def NewRequest_def)

lemma Publish_parsed_request:
  "url_error h topicURL = None \<Longrightarrow>
   Publish h topicURL ''hello world'' [WithTitle ''Hi'', WithPriority [], WithTags []] =
     (case Do h \<lparr>Method = ''POST'', URL = topicURL, Body = ''hello world'',
                 Header = [''X-Title'' \<mapsto> ''Hi'']\<rparr> of
        Inl err \<Rightarrow> Return (Some err)
      | Inr resp \<Rightarrow>
          if StatusCode resp > 299 then
            Return (Some (Error (''unexpected response '' @ Sprintf_d (StatusCode resp)
                                  @ '' from server'')))
          else Return None)"
  by (simp add: Publish_def NewRequest_def WithTitle_def WithPriority_def WithTags_def
      Header_Set_def)

lemma execPublish_parsed:
  "execPublish cn h (ctx_publish conf) ev rt =
     (case Publish h (BaseURL conf @ ''/mytopic'') ''hello world''
             [WithTitle ''Hi'', WithPriority [], WithTags []] of
        Panic \<Rightarrow> Panic
      | Return (Some err) \<Rightarrow> Return (Some err, rt)
      | Return None \<Rightarrow> Return (conn_React cn (Channel ev) (ID ev) thumbs_up rt))"
  by (simp add: execPublish_def ctx_publish_def String_def default_flags_def NArg_def First_def)

lemma execPublish_positional:
  "execPublish cn h (ctx_publish_positional conf) ev rt =
     (case Publish h (BaseURL conf @ ''/mytopic'') ''hello world --title=Hi''
             [WithTitle [], WithPriority [], WithTags []] of
        Panic \<Rightarrow> Panic
      | Return (Some err) \<Rightarrow> Return (Some err, rt)
      | Return None \<Rightarrow> Return (conn_React cn (Channel ev) (ID ev) thumbs_up rt))"
  by (simp add: execPublish_def ctx_publish_positional_def String_def default_flags_def NArg_def
      First_def)

lemma execPublish_missing:
  "NArg c < 2 \<Longrightarrow> execPublish cn h c ev rt = Return (Some (Error ''topic and/or message missing''), rt)"
  by (simp add: execPublish_def)

end
